theory Spec2Isabelle
  imports Complex_Main "HOL-Library.AList"
begin

section \<open>Auto-fill utilities (utils/autoFillUtils.ts)\<close>

text \<open>
  The TypeScript of \<^verbatim>\<open>utils/autoFillUtils.ts\<close> as quoted in
  \<^verbatim>\<open>PAST PLANS/plan_answersform_refactor.md\<close>. Scores and match numbers are whole
  numbers, modelled as \<^typ>\<open>int\<close>. An optional property (\<^verbatim>\<open>undefined\<close> when
  absent) is an \<^typ>\<open>'a option\<close>. The parameter \<^verbatim>\<open>quinipolo\<close> is modelled by its
  question array \<^verbatim>\<open>quinipolo.quinipolo\<close>, the one property read.
\<close>

subsection \<open>Data\<close>

text \<open>One entry of \<^verbatim>\<open>quinipolo.quinipolo\<close> (the shape \<^verbatim>\<open>MatchRowProps.match\<close> spells out).\<close>

datatype gameType = Waterpolo | Football

record question =
  homeTeam :: string
  awayTeam :: string
  gameType :: gameType

text \<open>
  \<^verbatim>\<open>MatchResult\<close>, by the properties \<^verbatim>\<open>applyAutoFillResults\<close> reads. The scraper reports
  a match decided on penalties with the outcome string \<^verbatim>\<open>"Tie (PEN)"\<close> and fills the two
  regulation scores for it.
\<close>

record matchResult =
  matchNumber :: int
  outcome :: string
  homeScore :: int
  awayScore :: int
  homeRegulationScore :: "int option"
  awayRegulationScore :: "int option"

text \<open>
  \<^verbatim>\<open>AnswersType\<close>. The two goal properties are optional: an object built by spreading
  \<^verbatim>\<open>undefined\<close> has neither.
\<close>

record answer =
  answerMatchNumber :: int
  chosenWinner :: string
  isGame15 :: bool
  goalsHomeTeam :: "string option"
  goalsAwayTeam :: "string option"

subsection \<open>JavaScript arrays\<close>

text \<open>
  An array is the list of its slots; \<open>None\<close> is a hole or \<^verbatim>\<open>undefined\<close>. Reading past
  the end gives \<^verbatim>\<open>undefined\<close>; writing past the end extends the array, the slots in
  between left as holes.
\<close>

definition jsGet :: "'a option list \<Rightarrow> nat \<Rightarrow> 'a option" where
  "jsGet xs i = (if i < length xs then xs ! i else None)"

definition jsSet :: "'a option list \<Rightarrow> nat \<Rightarrow> 'a \<Rightarrow> 'a option list" where
  "jsSet xs i v =
     (if i < length xs then xs[i := Some v]
      else xs @ replicate (i - length xs) None @ [Some v])"

subsection \<open>scoreToGoalRange\<close>

definition scoreToGoalRange :: "int \<Rightarrow> string" where
  "scoreToGoalRange score =
     (if score < 11 then ''-''
      else if score \<ge> 11 \<and> score \<le> 12 then ''11/12''
      else ''+'')"

subsection \<open>applyAutoFillResults\<close>

text \<open>
  The winner block of the loop body: \<^verbatim>\<open>let chosenWinner = ""\<close> and the
  \<^verbatim>\<open>if\<close>/\<^verbatim>\<open>else\<close> that follows. \<^verbatim>\<open>quinipolo.quinipolo[matchIndex]\<close> is
  \<^verbatim>\<open>undefined\<close> past the end of the question array.
\<close>

definition chosenWinnerOf :: "question list \<Rightarrow> nat \<Rightarrow> matchResult \<Rightarrow> string" where
  "chosenWinnerOf quinipolo matchIndex result =
     (if outcome result = ''Tie'' \<or> outcome result = ''Tie (PEN)'' then ''empat''
      else if matchIndex < length quinipolo then
        (let quinipoloMatch = quinipolo ! matchIndex in
         if outcome result = homeTeam quinipoloMatch then homeTeam quinipoloMatch
         else if outcome result = awayTeam quinipoloMatch then awayTeam quinipoloMatch
         else '''')
      else '''')"

text \<open>
  The score block for game 15: \<^verbatim>\<open>homeScore\<close> and \<^verbatim>\<open>awayScore\<close> start as the reported
  scores and are replaced by the regulation scores for a penalty tie that has both.
\<close>

definition effectiveScores :: "matchResult \<Rightarrow> int \<times> int" where
  "effectiveScores result =
     (if outcome result = ''Tie (PEN)'' \<and>
         homeRegulationScore result \<noteq> None \<and>
         awayRegulationScore result \<noteq> None
      then (the (homeRegulationScore result), the (awayRegulationScore result))
      else (homeScore result, awayScore result))"

text \<open>
  The body of \<^verbatim>\<open>matches.forEach\<close>. The first assignment spreads the old slot (nothing,
  when it is \<^verbatim>\<open>undefined\<close>) and sets three properties; for index 14 the second
  assignment spreads the object just stored and sets the two goal ranges.
\<close>

definition applyResult :: "question list \<Rightarrow> answer option list \<Rightarrow> matchResult \<Rightarrow> answer option list" where
  "applyResult quinipolo updatedAnswers result =
     (let matchIndex = matchNumber result - 1 in
      if matchIndex < 0 \<or> matchIndex \<ge> 15 then updatedAnswers
      else
        let i = nat matchIndex;
            old = jsGet updatedAnswers i;
            stored = \<lparr> answerMatchNumber = matchNumber result,
                       chosenWinner = chosenWinnerOf quinipolo i result,
                       isGame15 = (matchIndex = 14),
                       goalsHomeTeam = (case old of None \<Rightarrow> None | Some a \<Rightarrow> goalsHomeTeam a),
                       goalsAwayTeam = (case old of None \<Rightarrow> None | Some a \<Rightarrow> goalsAwayTeam a) \<rparr>;
            updated = jsSet updatedAnswers i stored
        in if matchIndex = 14 then
             (let (homeScore', awayScore') = effectiveScores result in
              jsSet updated 14
                (stored \<lparr> goalsHomeTeam := Some (scoreToGoalRange homeScore'),
                          goalsAwayTeam := Some (scoreToGoalRange awayScore') \<rparr>))
           else updated)"

definition applyAutoFillResults ::
  "matchResult list \<Rightarrow> answer option list \<Rightarrow> question list \<Rightarrow> answer option list" where
  "applyAutoFillResults matches currentAnswers quinipolo =
     foldl (applyResult quinipolo) currentAnswers matches"

text \<open>\<^verbatim>\<open>createInitialAnswers\<close> of \<^verbatim>\<open>constants.ts\<close>: fourteen plain slots and game 15.\<close>

definition createInitialAnswers :: "answer option list" where
  "createInitialAnswers =
     map (\<lambda>index. Some \<lparr> answerMatchNumber = int index + 1, chosenWinner = '''',
                            isGame15 = False, goalsHomeTeam = Some '''',
                            goalsAwayTeam = Some '''' \<rparr>) [0..<14]
     @ [Some \<lparr> answerMatchNumber = 15, chosenWinner = '''', isGame15 = True,
                goalsHomeTeam = Some '''', goalsAwayTeam = Some '''' \<rparr>]"

subsection \<open>Goal buckets with the bounds as parameters\<close>

text \<open>
  For comparison with \<^const>\<open>scoreToGoalRange\<close>, the goal-bucket derivation in the words
  of the specification (section 4.2): below a low threshold, within an inclusive mid-range,
  or above an upper threshold, the two bounds of the mid-range being parameters.
\<close>

datatype bucket = Low | Mid | High

definition goalBucket :: "int \<Rightarrow> int \<Rightarrow> int \<Rightarrow> bucket" where
  "goalBucket lowest highest score =
     (if score < lowest then Low else if score \<le> highest then Mid else High)"

text \<open>The labels as the doc comment of \<^verbatim>\<open>scoreToGoalRange\<close> explains them.\<close>

definition bucketOfLabel :: "string \<Rightarrow> bucket option" where
  "bucketOfLabel label =
     (if label = ''-'' then Some Low
      else if label = ''11/12'' then Some Mid
      else if label = ''+'' then Some High
      else None)"

section \<open>Translation validation (scripts/validate-translations.js)\<close>

subsection \<open>Data\<close>

text \<open>
  A parsed JSON value. An object is the list of its own entries, a key with its value; in
  JavaScript the keys of one object are pairwise distinct, which nothing below relies on.
  A string is the list of its code units.
\<close>

datatype json =
    JNull
  | JBool bool
  | JNumber rat
  | JString string
  | JArray "json list"
  | JObject "(string \<times> json) list"

text \<open>An element of \<^verbatim>\<open>files\<close>: \<^verbatim>\<open>{ locale, path }\<close>.\<close>

record translationFile =
  localeName :: string
  path :: string

text \<open>
  What \<^verbatim>\<open>fs.readFileSync\<close> followed by \<^verbatim>\<open>JSON.parse\<close> gives for a path: the value the
  file holds (any JSON value, \<^verbatim>\<open>null\<close> included), or \<open>None\<close> when either of them throws.
\<close>

type_synonym fileSystem = "string \<Rightarrow> json option"

text \<open>
  How a run can end without a return value: \<^verbatim>\<open>process.exit(code)\<close>, or a
  \<^verbatim>\<open>TypeError\<close> that nothing catches.
\<close>

datatype failure = ProcessExit int | TypeError

subsection \<open>Object.entries\<close>

text \<open>The decimal numeral of an index, as the keys of an array or of a string are written.\<close>

fun decimal :: "nat \<Rightarrow> string" where
  "decimal n =
     (if n < 10 then [''0123456789'' ! n]
      else decimal (n div 10) @ [''0123456789'' ! (n mod 10)])"

declare decimal.simps [simp del]

text \<open>
  \<^verbatim>\<open>Object.entries\<close> of a parsed value: a \<^verbatim>\<open>TypeError\<close> for \<^verbatim>\<open>null\<close>, nothing for a
  boolean or a number, the indexed code units of a string, the indexed elements of an array,
  the entries of an object.
\<close>

definition objectEntries :: "json \<Rightarrow> failure + (string \<times> json) list" where
  "objectEntries data =
     (case data of
        JNull \<Rightarrow> Inl TypeError
      | JBool b \<Rightarrow> Inr []
      | JNumber n \<Rightarrow> Inr []
      | JString s \<Rightarrow> Inr (map (\<lambda>(i, c). (decimal i, JString [c])) (enumerate 0 s))
      | JArray elements \<Rightarrow> Inr (map (\<lambda>(i, element). (decimal i, element)) (enumerate 0 elements))
      | JObject entries \<Rightarrow> Inr entries)"

subsection \<open>extractKeys\<close>

text \<open>\<^verbatim>\<open>prefix ? `${prefix}.${key}` : key\<close>: the empty string is falsy.\<close>

definition fullKeyOf :: "string \<Rightarrow> string \<Rightarrow> string" where
  "fullKeyOf prefix key = (if prefix \<noteq> [] then prefix @ ''.'' @ key else key)"

text \<open>
  The loop of \<^verbatim>\<open>extractKeys\<close> over the entries of its argument. Of all JSON values only
  an object passes \<^verbatim>\<open>value && typeof value === 'object' && !Array.isArray(value)\<close>, so the
  recursive call is on an object, whose entries are its own.
\<close>

fun extractKeys :: "(string \<times> json) list \<Rightarrow> string \<Rightarrow> string set" where
  "extractKeys [] prefix = {}"
| "extractKeys ((key, value) # rest) prefix =
     (let fullKey = fullKeyOf prefix key in
      (case value of
         JObject entries \<Rightarrow> extractKeys entries fullKey
       | _ \<Rightarrow> {fullKey})
      \<union> extractKeys rest prefix)"

text \<open>
  The call \<^verbatim>\<open>extractKeys(data)\<close> of \<^verbatim>\<open>validateTranslationSet\<close>, on whatever the file
  parsed to, with the default prefix \<^verbatim>\<open>''\<close>.
\<close>

definition extractKeysOfData :: "json \<Rightarrow> failure + string set" where
  "extractKeysOfData data =
     (case objectEntries data of
        Inl e \<Rightarrow> Inl e
      | Inr entries \<Rightarrow> Inr (extractKeys entries []))"

subsection \<open>validateTranslationSet\<close>

text \<open>The \<^verbatim>\<open>try\<close>/\<^verbatim>\<open>catch\<close> around reading and parsing ends the process with code 1.\<close>

definition readTranslationFile :: "fileSystem \<Rightarrow> string \<Rightarrow> failure + json" where
  "readTranslationFile fs filePath =
     (case fs filePath of None \<Rightarrow> Inl (ProcessExit 1) | Some data \<Rightarrow> Inr data)"

text \<open>
  The first loop: it fills the \<^verbatim>\<open>Map\<close> \<^verbatim>\<open>translations\<close> (\<^verbatim>\<open>Map.set\<close> replaces the
  value of a key already present and keeps its place, as \<^const>\<open>AList.update\<close> does) and
  the set \<^verbatim>\<open>allKeys\<close>. A file that cannot be read ends the process; the
  \<^verbatim>\<open>TypeError\<close> of \<^verbatim>\<open>extractKeys\<close> is outside the \<^verbatim>\<open>try\<close> and ends the run.
\<close>

fun readAll ::
  "fileSystem \<Rightarrow> translationFile list \<Rightarrow> (string \<times> string set) list \<Rightarrow> string set \<Rightarrow>
   failure + ((string \<times> string set) list \<times> string set)" where
  "readAll fs [] translations allKeys = Inr (translations, allKeys)"
| "readAll fs (file # files) translations allKeys =
     (case readTranslationFile fs (path file) of
        Inl e \<Rightarrow> Inl e
      | Inr data \<Rightarrow>
          (case extractKeysOfData data of
             Inl e \<Rightarrow> Inl e
           | Inr keys \<Rightarrow>
               readAll fs files (AList.update (localeName file) keys translations)
                 (allKeys \<union> keys)))"

text \<open>The second loop: \<^verbatim>\<open>hasErrors\<close> is set once a locale misses a key of \<^verbatim>\<open>allKeys\<close>.\<close>

definition checkLocales :: "(string \<times> string set) list \<Rightarrow> string set \<Rightarrow> bool" where
  "checkLocales translations allKeys =
     foldl (\<lambda>hasErrors (locale, keys).
              let missing = Set.filter (\<lambda>key. key \<notin> keys) allKeys in
              if missing \<noteq> {} then True else hasErrors)
       False translations"

text \<open>The return value; the report written to the console is not modelled.\<close>

definition validateTranslationSet :: "fileSystem \<Rightarrow> translationFile list \<Rightarrow> failure + bool" where
  "validateTranslationSet fs files =
     (case readAll fs files [] {} of
        Inl e \<Rightarrow> Inl e
      | Inr (translations, allKeys) \<Rightarrow>
          (let hasErrors = checkLocales translations allKeys in
           if hasErrors then Inr False else Inr True))"

text \<open>
  For comparison with \<^const>\<open>extractKeys\<close>: the paths from the root to the values that are
  not objects, and the path's keys joined with dots.
\<close>

fun leafPaths :: "(string \<times> json) list \<Rightarrow> string list list" where
  "leafPaths [] = []"
| "leafPaths ((key, value) # rest) =
     (case value of
        JObject entries \<Rightarrow> map ((#) key) (leafPaths entries)
      | _ \<Rightarrow> [[key]])
     @ leafPaths rest"

fun dotJoin :: "string list \<Rightarrow> string" where
  "dotJoin [] = []"
| "dotJoin [key] = key"
| "dotJoin (key # keys) = key @ ''.'' @ dotJoin keys"


section \<open>The result-to-question matching pipeline\<close>

text \<open>
  The backend that fetches, filters and matches results (\<^verbatim>\<open>services/scraper/resultsService.js\<close>
  and the scraping clients) is described by the planning documents and by the
  specification only. Its parts are modelled here from the specification's sections 3 and 4.
\<close>

subsection \<open>Data\<close>

text \<open>Modelled from the spec: the \<^verbatim>\<open>status\<close> of a RawResult (section 3); the scraper's result
  type is missing from the sources.\<close>

datatype status = Scheduled | Finished | Aet | Shootout

text \<open>Modelled from the spec: RawResult (section 3), missing from the sources. The scores are
  named \<^verbatim>\<open>homeScore\<close>, \<^verbatim>\<open>awayScore\<close>, \<^verbatim>\<open>homeRegulationScore\<close> and
  \<^verbatim>\<open>awayRegulationScore\<close> there. \<^verbatim>\<open>kickoffTime\<close> counts seconds.\<close>

record rawResult =
  sourceId :: string
  homeTeamRaw :: string
  awayTeamRaw :: string
  homeScoreRaw :: int
  awayScoreRaw :: int
  homeRegulationRaw :: "int option"
  awayRegulationRaw :: "int option"
  status :: status
  kickoffTime :: int
  isChampionsLeague :: bool

text \<open>Modelled from the spec: Question (section 3), the entry of \<^verbatim>\<open>quinipolo.quinipolo\<close>
  together with its \<^verbatim>\<open>matchNumber\<close>.\<close>

record formQuestion = question +
  questionNumber :: int

text \<open>Modelled from the spec: what invoking one fetcher gives (section 4.4 and section 5): the
  results of the source, or a failure (network error, parse error, timeout). The scraping
  clients are missing from the sources.\<close>

datatype fetchError = NetworkError | ParseError | Timeout

type_synonym fetcher = "fetchError + rawResult list"

text \<open>Modelled from the spec: the configuration surface of section 6, supplied by the caller:
  the normalizer and the similarity score of section 4.1 (their code is missing from the
  sources), the floor each of the two similarities must clear, and the confidence threshold
  by \<^verbatim>\<open>isChampionsLeague\<close>.\<close>

record matchConfig =
  normalizeName :: "string \<Rightarrow> string"
  similarity :: "string \<Rightarrow> string \<Rightarrow> int"
  similarityFloor :: int
  threshold :: "bool \<Rightarrow> int"

text \<open>Modelled from the spec: a MatchCandidate (section 3), as the binding the engine makes:
  the question and the result it pairs, each with its position in the engine's input, and the
  pair's confidence.\<close>

record matchCandidate =
  questionIx :: nat
  resultIx :: nat
  candidateQuestion :: formQuestion
  candidateResult :: rawResult
  confidence :: rat

text \<open>Modelled from the spec: what the engine returns (section 4.3): the candidates, and the
  \<^verbatim>\<open>InvalidQuestion\<close> diagnostics by match number.\<close>

record matchOutput =
  candidates :: "matchCandidate list"
  invalidQuestions :: "int list"

subsection \<open>Source Aggregator and Date Window Filter\<close>

text \<open>Modelled from the spec: the merge of section 4.4, missing from the sources. Every fetcher
  is looked at on its own; a failure is counted as a warning and adds nothing to the merged
  list.\<close>

fun mergeSources :: "fetcher list \<Rightarrow> rawResult list \<times> nat" where
  "mergeSources [] = ([], 0)"
| "mergeSources (fetched # rest) =
     (let (merged, warnings) = mergeSources rest in
      case fetched of
        Inl failure \<Rightarrow> (merged, Suc warnings)
      | Inr results \<Rightarrow> (results @ merged, warnings))"

text \<open>Modelled from the spec: the handler that
  \<^verbatim>\<open>CHAMPIONS_LEAGUE_RESULTS_IMPLEMENTATION.md\<close> elides as \<^verbatim>\<open>.catch(...)\<close>. By section 4.4
  a failed source is excluded from the merged set: it stands for no results.\<close>

definition catchFailure :: "fetcher \<Rightarrow> rawResult list" where
  "catchFailure fetched = (case fetched of Inl failure \<Rightarrow> [] | Inr results \<Rightarrow> results)"

text \<open>
  The merge of \<^verbatim>\<open>fetchLastWeekResults\<close> as \<^verbatim>\<open>CHAMPIONS_LEAGUE_RESULTS_IMPLEMENTATION.md\<close>
  quotes it: \<^verbatim>\<open>Promise.all\<close> over the two guarded fetches, then
  \<^verbatim>\<open>[...flashscoreResults, ...championsLeagueResults]\<close>.
\<close>

definition allResults :: "fetcher \<Rightarrow> fetcher \<Rightarrow> rawResult list" where
  "allResults flashscore championsLeague =
     (let flashscoreResults = catchFailure flashscore;
          championsLeagueResults = catchFailure championsLeague
      in flashscoreResults @ championsLeagueResults)"

text \<open>Modelled from the spec: the length of a day in the unit of \<^verbatim>\<open>kickoffTime\<close>; the
  specification fixes no unit.\<close>

definition secondsPerDay :: int where
  "secondsPerDay = 86400"

text \<open>Modelled from the spec: the filter of section 4.4, missing from the sources:
  \<^verbatim>\<open>kickoffTime >= now - windowDays\<close> and \<^verbatim>\<open>status != scheduled\<close>.\<close>

definition dateWindowFilter :: "int \<Rightarrow> int \<Rightarrow> rawResult list \<Rightarrow> rawResult list" where
  "dateWindowFilter now windowDays results =
     filter (\<lambda>r. kickoffTime r \<ge> now - windowDays * secondsPerDay \<and> status r \<noteq> Scheduled)
       results"

text \<open>Modelled from the spec: two records report the same fixture (section 4.4): same
  normalized team pair, same day.\<close>

definition sameFixture :: "(string \<Rightarrow> string) \<Rightarrow> rawResult \<Rightarrow> rawResult \<Rightarrow> bool" where
  "sameFixture canon r s =
     (canon (homeTeamRaw r) = canon (homeTeamRaw s) \<and>
      canon (awayTeamRaw r) = canon (awayTeamRaw s) \<and>
      kickoffTime r div secondsPerDay = kickoffTime s div secondsPerDay)"

text \<open>Modelled from the spec: both regulation scores are there (section 4.4, "non-null
  regulation scores").\<close>

definition hasRegulation :: "rawResult \<Rightarrow> bool" where
  "hasRegulation r = (homeRegulationRaw r \<noteq> None \<and> awayRegulationRaw r \<noteq> None)"

text \<open>Modelled from the spec: the more complete record (section 4.4): status
  \<^verbatim>\<open>aet\<close>/\<^verbatim>\<open>shootout\<close> over \<^verbatim>\<open>finished\<close>, or regulation scores over none.\<close>

definition moreComplete :: "rawResult \<Rightarrow> rawResult \<Rightarrow> bool" where
  "moreComplete r s =
     (((status r = Aet \<or> status r = Shootout) \<and> status s = Finished) \<or>
      (hasRegulation r \<and> \<not> hasRegulation s))"

text \<open>Modelled from the spec: de-duplication (section 4.4), missing from the sources. Of the
  records of one fixture the most complete is kept, the earliest in the list among equals.\<close>

fun dedupe :: "(string \<Rightarrow> string) \<Rightarrow> rawResult list \<Rightarrow> rawResult list" where
  "dedupe canon [] = []"
| "dedupe canon (r # rs) =
     foldl (\<lambda>kept s. if moreComplete s kept then s else kept) r (filter (sameFixture canon r) rs)
     # dedupe canon (filter (\<lambda>s. \<not> sameFixture canon r s) rs)"

text \<open>Modelled from the spec: \<^verbatim>\<open>aggregate\<close> (section 4.4), missing from the sources: merge,
  filter, de-duplicate. The warning count comes with the results.\<close>

definition aggregate ::
  "(string \<Rightarrow> string) \<Rightarrow> int \<Rightarrow> fetcher list \<Rightarrow> int \<Rightarrow> rawResult list \<times> nat" where
  "aggregate canon now fetchers windowDays =
     (let (merged, warnings) = mergeSources fetchers in
      (dedupe canon (dateWindowFilter now windowDays merged), warnings))"

subsection \<open>Matching Engine\<close>

text \<open>Modelled from the spec: malformed input (section 4.3): a question with an empty team
  name.\<close>

definition invalidQuestion :: "formQuestion \<Rightarrow> bool" where
  "invalidQuestion q = (homeTeam q = [] \<or> awayTeam q = [])"

text \<open>Modelled from the spec: step 1 of section 4.3, missing from the sources: the two
  similarities, each of which must clear the floor, and their average.\<close>

definition pairConfidence :: "matchConfig \<Rightarrow> formQuestion \<Rightarrow> rawResult \<Rightarrow> rat option" where
  "pairConfidence cfg q r =
     (let homeSim = similarity cfg (normalizeName cfg (homeTeamRaw r)) (normalizeName cfg (homeTeam q));
          awaySim = similarity cfg (normalizeName cfg (awayTeamRaw r)) (normalizeName cfg (awayTeam q))
      in if homeSim < similarityFloor cfg \<or> awaySim < similarityFloor cfg then None
         else Some ((of_int homeSim + of_int awaySim) / 2))"

text \<open>Modelled from the spec: steps 1 and 2 of section 4.3 over every pair of a well-formed
  question and a result: the pairs that clear the floor and the threshold of the result's
  \<^verbatim>\<open>isChampionsLeague\<close> flag.\<close>

definition survivingPairs ::
  "matchConfig \<Rightarrow> formQuestion list \<Rightarrow> rawResult list \<Rightarrow> matchCandidate list" where
  "survivingPairs cfg questions results =
     concat (map (\<lambda>(qi, q).
       if invalidQuestion q then []
       else concat (map (\<lambda>(ri, r).
         case pairConfidence cfg q r of
           None \<Rightarrow> []
         | Some c \<Rightarrow>
             if c < of_int (threshold cfg (isChampionsLeague r)) then []
             else [\<lparr> questionIx = qi, resultIx = ri, candidateQuestion = q,
                      candidateResult = r, confidence = c \<rparr>])
         (enumerate 0 results)))
       (enumerate 0 questions))"

text \<open>Modelled from the spec: the order of step 3 of section 4.3: higher confidence first,
  the earlier \<^verbatim>\<open>kickoffTime\<close> among equal confidences.\<close>

definition preferred :: "matchCandidate \<Rightarrow> matchCandidate \<Rightarrow> bool" where
  "preferred p q =
     (confidence p > confidence q \<or>
      (confidence p = confidence q \<and>
       kickoffTime (candidateResult p) < kickoffTime (candidateResult q)))"

text \<open>Modelled from the spec: the highest-confidence pair of a non-empty list (step 3 of
  section 4.3).\<close>

fun best :: "matchCandidate \<Rightarrow> matchCandidate list \<Rightarrow> matchCandidate" where
  "best p [] = p"
| "best p (q # qs) = best (if preferred q p then q else p) qs"

text \<open>Modelled from the spec: the greedy assignment of step 3 of section 4.3, missing from the
  sources: take the best pair, bind its question and its result, remove both from further
  consideration, repeat.\<close>

function greedy :: "matchCandidate list \<Rightarrow> matchCandidate list" where
  "greedy [] = []"
| "greedy (p # ps) =
     (let b = best p ps in
      b # greedy (filter (\<lambda>x. questionIx x \<noteq> questionIx b \<and> resultIx x \<noteq> resultIx b) (p # ps)))"
  by pat_completeness auto
termination
proof (relation "measure length")
  show "wf (measure length)" by simp
next
  fix p :: matchCandidate and ps b
  assume b: "b = best p ps"
  have "best q qs \<in> set (q # qs)" for q qs
    by (induction qs arbitrary: q) auto
  then have "b \<in> set (p # ps)" using b by blast
  then have "length (filter (\<lambda>x. questionIx x \<noteq> questionIx b \<and> resultIx x \<noteq> resultIx b) (p # ps))
             < length (p # ps)"
    by (intro length_filter_less [of b]) simp_all
  then show "(filter (\<lambda>x. questionIx x \<noteq> questionIx b \<and> resultIx x \<noteq> resultIx b) (p # ps), p # ps)
             \<in> measure length"
    by simp
qed

text \<open>Modelled from the spec: \<^verbatim>\<open>match\<close> (section 4.3), missing from the sources. A question
  left without a pair has no candidate; a malformed question is reported and skipped.\<close>

definition matchQuestions :: "matchConfig \<Rightarrow> formQuestion list \<Rightarrow> rawResult list \<Rightarrow> matchOutput" where
  "matchQuestions cfg questions results =
     \<lparr> candidates = greedy (survivingPairs cfg questions results),
       invalidQuestions = map questionNumber (filter invalidQuestion questions) \<rparr>"

text \<open>Modelled from the spec: the data flow of section 2: Source Aggregator, Date Window
  Filter, Matching Engine.\<close>

definition pipeline ::
  "matchConfig \<Rightarrow> int \<Rightarrow> fetcher list \<Rightarrow> int \<Rightarrow> formQuestion list \<Rightarrow> matchOutput" where
  "pipeline cfg now fetchers windowDays questions =
     matchQuestions cfg questions (fst (aggregate (normalizeName cfg) now fetchers windowDays))"

section \<open>Sample inputs\<close>

text \<open>Concrete inputs on which the theorems below are instantiated.\<close>

definition sampleFiles :: fileSystem where
  "sampleFiles filePath =
     (if filePath = ''en/translation.json'' then
        Some (JObject [(''title'', JString ''Results''),
                       (''modal'', JObject [(''close'', JString ''Close'')])])
      else if filePath = ''es/translation.json'' then
        Some (JObject [(''title'', JString ''Resultados''),
                       (''modal'', JObject [(''close'', JString ''Cerrar'')])])
      else if filePath = ''ca/translation.json'' then
        Some (JObject [(''title'', JString ''Resultats'')])
      else if filePath = ''de/translation.json'' then
        Some JNull
      else None)"

text \<open>A conversion of a candidate to an auto-fill result that keeps the match number.\<close>

definition sampleToResult :: "matchCandidate \<Rightarrow> matchResult" where
  "sampleToResult c =
     \<lparr> matchNumber = questionNumber (candidateQuestion c), outcome = ''Tie'',
       homeScore = homeScoreRaw (candidateResult c), awayScore = awayScoreRaw (candidateResult c),
       homeRegulationScore = homeRegulationRaw (candidateResult c),
       awayRegulationScore = awayRegulationRaw (candidateResult c) \<rparr>"

definition exactConfig :: matchConfig where
  "exactConfig =
     \<lparr> normalizeName = (\<lambda>name. name),
       similarity = (\<lambda>a b. if a = b then 100 else 0),
       similarityFloor = 40,
       threshold = (\<lambda>championsLeague. if championsLeague then 60 else 50) \<rparr>"

definition finishedResult :: rawResult where
  "finishedResult =
     \<lparr> sourceId = ''flashscore'', homeTeamRaw = ''Barceloneta'', awayTeamRaw = ''Sabadell'',
       homeScoreRaw = 12, awayScoreRaw = 9, homeRegulationRaw = None, awayRegulationRaw = None,
       status = Finished, kickoffTime = 500000, isChampionsLeague = False \<rparr>"

definition scheduledResult :: rawResult where
  "scheduledResult =
     \<lparr> sourceId = ''flashscore'', homeTeamRaw = ''Terrassa'', awayTeamRaw = ''Mataro'',
       homeScoreRaw = 0, awayScoreRaw = 0, homeRegulationRaw = None, awayRegulationRaw = None,
       status = Scheduled, kickoffTime = 600000, isChampionsLeague = False \<rparr>"

definition firstQuestion :: formQuestion where
  "firstQuestion =
     \<lparr> homeTeam = ''Barceloneta'', awayTeam = ''Sabadell'', gameType = Waterpolo,
       questionNumber = 1 \<rparr>"

definition secondQuestion :: formQuestion where
  "secondQuestion =
     \<lparr> homeTeam = ''Terrassa'', awayTeam = ''Mataro'', gameType = Waterpolo,
       questionNumber = 2 \<rparr>"

definition rematchQuestion :: formQuestion where
  "rematchQuestion =
     \<lparr> homeTeam = ''Barceloneta'', awayTeam = ''Sabadell'', gameType = Waterpolo,
       questionNumber = 3 \<rparr>"

section \<open>Properties of the auto-fill utilities\<close>

lemma jsGet_jsSet: "jsGet (jsSet xs j v) i = (if i = j then Some v else jsGet xs i)"
  by (auto simp: jsGet_def jsSet_def nth_append)

lemma applyResult_other:
  "int i \<noteq> matchNumber r - 1 \<Longrightarrow> jsGet (applyResult q ua r) i = jsGet ua i"
  by (auto simp: applyResult_def Let_def jsGet_jsSet split: prod.splits)

lemma applyResult_skip:
  "\<not> (1 \<le> matchNumber r \<and> matchNumber r \<le> 15) \<Longrightarrow> applyResult q ua r = ua"
  by (auto simp: applyResult_def Let_def)

lemma applyResult_slot:
  assumes "1 \<le> matchNumber r" and "matchNumber r \<le> 15"
  shows "\<exists>ans. jsGet (applyResult q ua r) (nat (matchNumber r - 1)) = Some ans \<and>
           answerMatchNumber ans = matchNumber r \<and>
           chosenWinner ans = chosenWinnerOf q (nat (matchNumber r - 1)) r \<and>
           isGame15 ans = (matchNumber r = 15) \<and>
           (matchNumber r = 15 \<longrightarrow>
              goalsHomeTeam ans = Some (scoreToGoalRange (fst (effectiveScores r))) \<and>
              goalsAwayTeam ans = Some (scoreToGoalRange (snd (effectiveScores r))))"
  using assms
  by (auto simp: applyResult_def Let_def jsGet_jsSet split: prod.splits)

lemma foldl_applyResult_untouched:
  "\<forall>m\<in>set ms. 1 \<le> matchNumber m \<and> matchNumber m \<le> 15 \<longrightarrow> matchNumber m - 1 \<noteq> int i \<Longrightarrow>
   jsGet (foldl (applyResult q) ua ms) i = jsGet ua i"
proof (induction ms arbitrary: ua)
  case Nil
  show ?case by simp
next
  case (Cons m ms)
  have "jsGet (applyResult q ua m) i = jsGet ua i"
  proof (cases "1 \<le> matchNumber m \<and> matchNumber m \<le> 15")
    case True
    with Cons.prems show ?thesis by (simp add: applyResult_other)
  next
    case False
    then show ?thesis by (simp add: applyResult_skip)
  qed
  with Cons show ?case by simp
qed

text \<open>
  Claim C1. A result decided on penalties (outcome \<^verbatim>\<open>"Tie (PEN)"\<close>, the scraper's form of
  the status \<^verbatim>\<open>shootout\<close>) that has both regulation scores resolves to the draw answer
  \<^verbatim>\<open>"empat"\<close>, and the scores its goal ranges are derived from are the regulation scores,
  not the reported ones; for game 15 the stored answer carries the draw and the ranges of the
  regulation scores. In particular reported 1-1 with regulation 1-1 gives the draw and the
  effective scores (1, 1).
\<close>

theorem penalty_tie_uses_regulation_scores:
  assumes "outcome result = ''Tie (PEN)''"
    and "homeRegulationScore result = Some h"
    and "awayRegulationScore result = Some a"
  shows "chosenWinnerOf quinipolo matchIndex result = ''empat'' \<and>
         effectiveScores result = (h, a) \<and>
         (matchNumber result = 15 \<longrightarrow>
            (\<exists>ans. jsGet (applyAutoFillResults [result] currentAnswers quinipolo) 14 = Some ans \<and>
               chosenWinner ans = ''empat'' \<and>
               goalsHomeTeam ans = Some (scoreToGoalRange h) \<and>
               goalsAwayTeam ans = Some (scoreToGoalRange a))) \<and>
         effectiveScores \<lparr> matchNumber = n, outcome = ''Tie (PEN)'', homeScore = 1, awayScore = 1,
            homeRegulationScore = Some 1, awayRegulationScore = Some 1 \<rparr> = (1, 1) \<and>
         chosenWinnerOf quinipolo matchIndex \<lparr> matchNumber = n, outcome = ''Tie (PEN)'',
            homeScore = 1, awayScore = 1, homeRegulationScore = Some 1,
            awayRegulationScore = Some 1 \<rparr> = ''empat''"
proof -
  have w: "chosenWinnerOf quinipolo i result = ''empat''" for i
    using assms(1) by (simp add: chosenWinnerOf_def)
  have e: "effectiveScores result = (h, a)"
    using assms by (simp add: effectiveScores_def)
  have g: "\<exists>ans. jsGet (applyAutoFillResults [result] currentAnswers quinipolo) 14 = Some ans \<and>
               chosenWinner ans = ''empat'' \<and>
               goalsHomeTeam ans = Some (scoreToGoalRange h) \<and>
               goalsAwayTeam ans = Some (scoreToGoalRange a)" if "matchNumber result = 15"
    using applyResult_slot [of result quinipolo currentAnswers] that w e
    by (auto simp: applyAutoFillResults_def)
  from w e g show ?thesis
    by (simp add: effectiveScores_def chosenWinnerOf_def)
qed

theorem penalty_tie_uses_regulation_scores_witness:
  "\<exists>ans. jsGet (applyAutoFillResults
             [\<lparr> matchNumber = 15, outcome = ''Tie (PEN)'', homeScore = 14, awayScore = 13,
                 homeRegulationScore = Some 10, awayRegulationScore = Some 10 \<rparr>]
             createInitialAnswers []) 14 = Some ans \<and>
         chosenWinner ans = ''empat'' \<and> goalsHomeTeam ans = Some ''-'' \<and>
         goalsAwayTeam ans = Some ''-''"
  using penalty_tie_uses_regulation_scores
    [of "\<lparr> matchNumber = 15, outcome = ''Tie (PEN)'', homeScore = 14, awayScore = 13,
            homeRegulationScore = Some 10, awayRegulationScore = Some 10 \<rparr>" 10 10 "[]" 14
        createInitialAnswers]
  by (simp add: scoreToGoalRange_def)

text \<open>
  Claim C3, as amended. The bounds of the goal buckets are not a parameter:
  \<^const>\<open>scoreToGoalRange\<close> takes the score alone and its buckets are those of the mid-range
  11 to 12 for every score, and what \<^const>\<open>applyAutoFillResults\<close> returns does not depend
  on the \<^verbatim>\<open>gameType\<close> of any question.
\<close>

theorem goal_buckets_fixed_for_waterpolo:
  "bucketOfLabel (scoreToGoalRange score) = Some (goalBucket 11 12 score) \<and>
   applyAutoFillResults matches currentAnswers (map (\<lambda>q. q \<lparr> gameType := g q \<rparr>) quinipolo)
     = applyAutoFillResults matches currentAnswers quinipolo"
proof
  show "bucketOfLabel (scoreToGoalRange score) = Some (goalBucket 11 12 score)"
    by (simp add: bucketOfLabel_def scoreToGoalRange_def goalBucket_def)
  have cw: "chosenWinnerOf (map (\<lambda>q. q \<lparr> gameType := g q \<rparr>) quinipolo) i r
            = chosenWinnerOf quinipolo i r" for i r
    by (simp add: chosenWinnerOf_def Let_def)
  have "applyResult (map (\<lambda>q. q \<lparr> gameType := g q \<rparr>) quinipolo) = applyResult quinipolo"
    by (intro ext) (simp add: applyResult_def cw Let_def)
  then show "applyAutoFillResults matches currentAnswers
               (map (\<lambda>q. q \<lparr> gameType := g q \<rparr>) quinipolo)
             = applyAutoFillResults matches currentAnswers quinipolo"
    by (simp add: applyAutoFillResults_def)
qed

theorem goal_buckets_fixed_for_waterpolo_witness:
  "bucketOfLabel (scoreToGoalRange 3) = Some Low \<and>
   applyAutoFillResults
     [\<lparr> matchNumber = 15, outcome = ''Tie'', homeScore = 3, awayScore = 3,
         homeRegulationScore = None, awayRegulationScore = None \<rparr>]
     []
     (map (\<lambda>q. q \<lparr> gameType := Football \<rparr>)
        [\<lparr> homeTeam = ''Barceloneta'', awayTeam = ''Sabadell'', gameType = Waterpolo \<rparr>])
   = applyAutoFillResults
     [\<lparr> matchNumber = 15, outcome = ''Tie'', homeScore = 3, awayScore = 3,
         homeRegulationScore = None, awayRegulationScore = None \<rparr>]
     []
     [\<lparr> homeTeam = ''Barceloneta'', awayTeam = ''Sabadell'', gameType = Waterpolo \<rparr>]"
  using goal_buckets_fixed_for_waterpolo
    [of 3 "[\<lparr> matchNumber = 15, outcome = ''Tie'', homeScore = 3, awayScore = 3,
               homeRegulationScore = None, awayRegulationScore = None \<rparr>]"
        "[]" "\<lambda>q. Football"
        "[\<lparr> homeTeam = ''Barceloneta'', awayTeam = ''Sabadell'', gameType = Waterpolo \<rparr>]"]
  by (simp add: goalBucket_def)

text \<open>
  Against C3 as stated: were the bounds supplied by the caller, a mid-range of 2 to 3 would
  put a score of 5 in the high bucket; \<^const>\<open>scoreToGoalRange\<close> puts it in the low one.
\<close>

theorem goal_buckets_not_configurable_counterexample:
  "bucketOfLabel (scoreToGoalRange 5) = Some Low \<and> goalBucket 2 3 5 = High \<and>
   bucketOfLabel (scoreToGoalRange 5) \<noteq> Some (goalBucket 2 3 5)"
  by (simp add: bucketOfLabel_def scoreToGoalRange_def goalBucket_def)

text \<open>
  Claim C4. Every score gets one of three labels: below 11 the low label \<^verbatim>\<open>"-"\<close>, from 11
  to 12 inclusive the label \<^verbatim>\<open>"11/12"\<close>, above 12 the high label \<^verbatim>\<open>"+"\<close>. So 11 maps to
  \<^verbatim>\<open>"11/12"\<close>, 10 to the low bucket and 13 to the high bucket.
\<close>

theorem scoreToGoalRange_three_buckets:
  "(score < 11 \<longrightarrow> scoreToGoalRange score = ''-'') \<and>
   (11 \<le> score \<and> score \<le> 12 \<longrightarrow> scoreToGoalRange score = ''11/12'') \<and>
   (12 < score \<longrightarrow> scoreToGoalRange score = ''+'') \<and>
   scoreToGoalRange 11 = ''11/12'' \<and> scoreToGoalRange 10 = ''-'' \<and> scoreToGoalRange 13 = ''+''"
  by (simp add: scoreToGoalRange_def)

theorem scoreToGoalRange_three_buckets_witness:
  "(9::int) < 11 \<and> scoreToGoalRange 9 = ''-'' \<and>
   (11::int) \<le> 12 \<and> (12::int) \<le> 12 \<and> scoreToGoalRange 12 = ''11/12'' \<and>
   (12::int) < 20 \<and> scoreToGoalRange 20 = ''+''"
  using scoreToGoalRange_three_buckets [of 9] scoreToGoalRange_three_buckets [of 12]
    scoreToGoalRange_three_buckets [of 20]
  by simp

text \<open>
  Claim C10. A result whose match number is within 1 to 15 and whose outcome is neither
  \<^verbatim>\<open>"Tie"\<close> nor \<^verbatim>\<open>"Tie (PEN)"\<close> nor the home team nor the away team of the question at
  its index (or that has no question there) sets the winner of its slot to the empty string,
  whatever was chosen there before; the slot keeps it unless a later result of the list
  writes the same slot.
\<close>

theorem unmatched_outcome_clears_winner:
  assumes "1 \<le> matchNumber result" and "matchNumber result \<le> 15"
    and "outcome result \<noteq> ''Tie''" and "outcome result \<noteq> ''Tie (PEN)''"
    and "nat (matchNumber result - 1) < length quinipolo \<longrightarrow>
           outcome result \<noteq> homeTeam (quinipolo ! nat (matchNumber result - 1)) \<and>
           outcome result \<noteq> awayTeam (quinipolo ! nat (matchNumber result - 1))"
    and "\<forall>m\<in>set later. matchNumber m \<noteq> matchNumber result"
  shows "\<exists>ans. jsGet (applyAutoFillResults (earlier @ result # later) currentAnswers quinipolo)
                  (nat (matchNumber result - 1)) = Some ans \<and>
               chosenWinner ans = ''''"
proof -
  let ?i = "nat (matchNumber result - 1)"
  let ?before = "foldl (applyResult quinipolo) currentAnswers earlier"
  have cw: "chosenWinnerOf quinipolo ?i result = ''''"
    using assms(3-5) by (auto simp: chosenWinnerOf_def Let_def)
  have "\<forall>m\<in>set later. 1 \<le> matchNumber m \<and> matchNumber m \<le> 15 \<longrightarrow> matchNumber m - 1 \<noteq> int ?i"
    using assms(1,6) by auto
  then have "jsGet (foldl (applyResult quinipolo) (applyResult quinipolo ?before result) later) ?i
             = jsGet (applyResult quinipolo ?before result) ?i"
    by (rule foldl_applyResult_untouched)
  with applyResult_slot [OF assms(1,2), of quinipolo ?before] cw
  show ?thesis by (auto simp: applyAutoFillResults_def)
qed

theorem unmatched_outcome_clears_winner_witness:
  "\<exists>ans. jsGet (applyAutoFillResults
             [\<lparr> matchNumber = 1, outcome = ''Sabadell'', homeScore = 7, awayScore = 9,
                 homeRegulationScore = None, awayRegulationScore = None \<rparr>,
              \<lparr> matchNumber = 1, outcome = ''Terrassa'', homeScore = 9, awayScore = 7,
                 homeRegulationScore = None, awayRegulationScore = None \<rparr>,
              \<lparr> matchNumber = 2, outcome = ''Tie'', homeScore = 8, awayScore = 8,
                 homeRegulationScore = None, awayRegulationScore = None \<rparr>]
             [Some \<lparr> answerMatchNumber = 1, chosenWinner = ''Barceloneta'', isGame15 = False,
                     goalsHomeTeam = Some '''', goalsAwayTeam = Some '''' \<rparr>]
             [\<lparr> homeTeam = ''Barceloneta'', awayTeam = ''Sabadell'', gameType = Waterpolo \<rparr>])
           0 = Some ans \<and>
         chosenWinner ans = ''''"
  using unmatched_outcome_clears_winner
    [of "\<lparr> matchNumber = 1, outcome = ''Terrassa'', homeScore = 9, awayScore = 7,
            homeRegulationScore = None, awayRegulationScore = None \<rparr>"
        "[\<lparr> homeTeam = ''Barceloneta'', awayTeam = ''Sabadell'', gameType = Waterpolo \<rparr>]"
        "[\<lparr> matchNumber = 2, outcome = ''Tie'', homeScore = 8, awayScore = 8,
             homeRegulationScore = None, awayRegulationScore = None \<rparr>]"
        "[\<lparr> matchNumber = 1, outcome = ''Sabadell'', homeScore = 7, awayScore = 9,
             homeRegulationScore = None, awayRegulationScore = None \<rparr>]"
        "[Some \<lparr> answerMatchNumber = 1, chosenWinner = ''Barceloneta'', isGame15 = False,
                  goalsHomeTeam = Some '''', goalsAwayTeam = Some '''' \<rparr>]"]
  by simp

section \<open>Properties of the translation validation\<close>

subsection \<open>extractKeys\<close>

lemma extractKeys_paths:
  "extractKeys obj prefix = (\<lambda>p. foldl fullKeyOf prefix p) ` set (leafPaths obj)"
proof (induction obj prefix rule: extractKeys.induct)
  case (1 prefix)
  show ?case by simp
next
  case (2 key v rest prefix)
  show ?case
  proof (cases v)
    case (JObject entries)
    with 2 show ?thesis by (simp add: image_Un image_image)
  qed (use 2 in \<open>simp_all add: image_Un\<close>)
qed

lemma foldl_fullKeyOf_prefix:
  "prefix \<noteq> [] \<Longrightarrow> foldl fullKeyOf prefix p = dotJoin (prefix # p)"
proof (induction p arbitrary: prefix)
  case Nil
  show ?case by simp
next
  case (Cons key keys)
  have "foldl fullKeyOf prefix (key # keys) = foldl fullKeyOf (prefix @ ''.'' @ key) keys"
    using Cons.prems by (simp add: fullKeyOf_def)
  also have "\<dots> = dotJoin ((prefix @ ''.'' @ key) # keys)"
    by (rule Cons.IH) simp
  also have "\<dots> = dotJoin (prefix # key # keys)"
    by (cases keys) simp_all
  finally show ?case .
qed

lemma foldl_fullKeyOf_root:
  "foldl fullKeyOf [] p = dotJoin (dropWhile (\<lambda>key. key = []) p)"
proof (induction p)
  case Nil
  show ?case by simp
next
  case (Cons key keys)
  show ?case
  proof (cases "key = []")
    case True
    with Cons show ?thesis by (simp add: fullKeyOf_def)
  next
    case False
    then have "fullKeyOf [] key = key"
      and "dropWhile (\<lambda>key. key = []) (key # keys) = key # keys"
      by (simp_all add: fullKeyOf_def)
    with False show ?thesis by (simp add: foldl_fullKeyOf_prefix)
  qed
qed

lemma leafPaths_hd: "p \<in> set (leafPaths obj) \<Longrightarrow> p \<noteq> [] \<and> hd p \<in> fst ` set obj"
proof (induction obj arbitrary: p)
  case Nil
  then show ?case by simp
next
  case (Cons e rest)
  obtain key v where e: "e = (key, v)" by (cases e)
  show ?case using Cons e by (cases v) auto
qed

text \<open>
  What \<^const>\<open>extractKeys\<close> returns for every object: it goes into the values that are
  objects and into no other value, and adds every other value (array, null, primitive) as one
  key, the keys of its path joined with dots once the empty keys the path starts with are
  dropped. Where no top-level key is empty that is the dot-joined path. No key comes from
  inside an array, and a key whose value is the empty object adds none.
\<close>

lemma extractKeys_leaves:
  "extractKeys obj [] = (\<lambda>p. dotJoin (dropWhile (\<lambda>key. key = []) p)) ` set (leafPaths obj) \<and>
   ([] \<notin> fst ` set obj \<longrightarrow> extractKeys obj [] = dotJoin ` set (leafPaths obj)) \<and>
   ((\<forall>entries. v \<noteq> JObject entries) \<longrightarrow>
      extractKeys ((key, v) # rest) prefix
        = insert (fullKeyOf prefix key) (extractKeys rest prefix)) \<and>
   extractKeys ((key, JArray elements) # rest) prefix
     = insert (fullKeyOf prefix key) (extractKeys rest prefix) \<and>
   extractKeys ((key, JObject []) # rest) prefix = extractKeys rest prefix"
proof (intro conjI impI)
  show root: "extractKeys obj []
                = (\<lambda>p. dotJoin (dropWhile (\<lambda>key. key = []) p)) ` set (leafPaths obj)"
    by (simp add: extractKeys_paths foldl_fullKeyOf_root)
  show "extractKeys obj [] = dotJoin ` set (leafPaths obj)" if "[] \<notin> fst ` set obj"
  proof -
    have "dropWhile (\<lambda>key. key = []) p = p" if "p \<in> set (leafPaths obj)" for p
    proof -
      from leafPaths_hd [OF that] \<open>[] \<notin> fst ` set obj\<close> have "p \<noteq> []" "hd p \<noteq> []"
        by force+
      then show ?thesis by (cases p) simp_all
    qed
    with root show ?thesis by (simp cong: image_cong)
  qed
  show "extractKeys ((key, v) # rest) prefix
          = insert (fullKeyOf prefix key) (extractKeys rest prefix)"
    if "\<forall>entries. v \<noteq> JObject entries"
    using that by (cases v) simp_all
qed simp_all

text \<open>
  Claim C9. \<^const>\<open>extractKeys\<close> is to add every value that is not an object as one key at
  its dot-joined path. At the object \<^verbatim>\<open>{"": {"a": null}}\<close> it does not: the leaf at the
  path \<open>["", "a"]\<close>, whose dot-joined path is \<^verbatim>\<open>".a"\<close>, is added as \<^verbatim>\<open>"a"\<close>, because
  the empty prefix is taken for no prefix. Under a non-empty prefix the same empty key keeps
  its dot (\<^verbatim>\<open>"b..a"\<close>), and the object \<^verbatim>\<open>{"a": null}\<close> gets the same key set.
\<close>

theorem extractKeys_empty_key_drops_dot:
  "extractKeys [([], JObject [(''a'', JNull)])] [] = {''a''} \<and>
   dotJoin ` set (leafPaths [([], JObject [(''a'', JNull)])]) = {''.a''} \<and>
   extractKeys [([], JObject [(''a'', JNull)])] []
     \<noteq> dotJoin ` set (leafPaths [([], JObject [(''a'', JNull)])]) \<and>
   extractKeys [(''b'', JObject [([], JObject [(''a'', JNull)])])] [] = {''b..a''} \<and>
   extractKeysOfData (JObject [([], JObject [(''a'', JNull)])]) = Inr {''a''} \<and>
   extractKeysOfData (JObject [(''a'', JNull)]) = Inr {''a''}"
  by (simp add: fullKeyOf_def extractKeysOfData_def objectEntries_def)

subsection \<open>validateTranslationSet\<close>








text \<open>
  A file that holds \<^verbatim>\<open>null\<close> is read and parsed; \<^verbatim>\<open>Object.entries(null)\<close> then throws
  outside the \<^verbatim>\<open>try\<close>, and the run ends with the \<^verbatim>\<open>TypeError\<close>.
\<close>

lemma validateTranslationSet_null_file:
  "validateTranslationSet sampleFiles
     [\<lparr> localeName = ''de'', path = ''de/translation.json'' \<rparr>] = Inl TypeError"
  by (simp add: validateTranslationSet_def readTranslationFile_def extractKeysOfData_def
      objectEntries_def sampleFiles_def)




section \<open>Properties of the matching pipeline\<close>

lemma best_mem: "best p ps \<in> set (p # ps)"
  by (induction ps arbitrary: p) auto

lemma greedy_subset: "set (greedy ps) \<subseteq> set ps"
proof (induction ps rule: greedy.induct)
  case 1
  show ?case by simp
next
  case (2 p ps)
  have "best p ps \<in> set (p # ps)" by (rule best_mem)
  moreover have "set (greedy (filter (\<lambda>x. questionIx x \<noteq> questionIx (best p ps) \<and>
                   resultIx x \<noteq> resultIx (best p ps)) (p # ps))) \<subseteq> set (p # ps)"
    using 2 [OF refl] by auto
  ultimately show ?case by (auto simp: Let_def)
qed

lemma greedy_one_to_one:
  "distinct (map questionIx (greedy ps)) \<and> distinct (map resultIx (greedy ps))"
proof (induction ps rule: greedy.induct)
  case 1
  show ?case by simp
next
  case (2 p ps)
  define b where "b = best p ps"
  define rest where
    "rest = filter (\<lambda>x. questionIx x \<noteq> questionIx b \<and> resultIx x \<noteq> resultIx b) (p # ps)"
  have g: "greedy (p # ps) = b # greedy rest"
    by (simp add: b_def rest_def Let_def)
  have ih: "distinct (map questionIx (greedy rest)) \<and> distinct (map resultIx (greedy rest))"
    using 2 [OF b_def] by (simp add: rest_def)
  have "set (greedy rest) \<subseteq> set rest" by (rule greedy_subset)
  then have "\<forall>x\<in>set (greedy rest). questionIx x \<noteq> questionIx b \<and> resultIx x \<noteq> resultIx b"
    by (auto simp: rest_def)
  with ih show ?case unfolding g by auto
qed

lemma survivingPairs_sound:
  assumes "c \<in> set (survivingPairs cfg questions results)"
  shows "questionIx c < length questions \<and> candidateQuestion c = questions ! questionIx c \<and>
         resultIx c < length results \<and> candidateResult c = results ! resultIx c \<and>
         \<not> invalidQuestion (candidateQuestion c) \<and>
         pairConfidence cfg (candidateQuestion c) (candidateResult c) = Some (confidence c) \<and>
         confidence c \<ge> of_int (threshold cfg (isChampionsLeague (candidateResult c)))"
  using assms
  by (auto simp: survivingPairs_def in_set_enumerate_eq split: if_splits option.splits)

lemma candidates_sound:
  assumes "c \<in> set (candidates (matchQuestions cfg questions results))"
  shows "questionIx c < length questions \<and> candidateQuestion c = questions ! questionIx c \<and>
         resultIx c < length results \<and> candidateResult c = results ! resultIx c"
proof -
  from assms have "c \<in> set (survivingPairs cfg questions results)"
    using greedy_subset by (auto simp: matchQuestions_def)
  then show ?thesis using survivingPairs_sound by blast
qed

lemma mergeSources_fst:
  "fst (mergeSources fetchers) = concat (map catchFailure fetchers)"
  by (induction fetchers) (auto simp: catchFailure_def split: prod.splits sum.splits)

lemma mergeSources_snd:
  "snd (mergeSources fetchers) = length (filter isl fetchers)"
  by (induction fetchers) (auto split: prod.splits sum.splits)

lemma dedupe_subset: "set (dedupe canon rs) \<subseteq> set rs"
proof (induction canon rs rule: dedupe.induct)
  case (1 canon)
  show ?case by simp
next
  case (2 canon r rs)
  have "foldl (\<lambda>kept s. if moreComplete s kept then s else kept) k xs \<in> set (k # xs)" for k xs
    by (induction xs arbitrary: k) auto
  then have "foldl (\<lambda>kept s. if moreComplete s kept then s else kept) r
               (filter (sameFixture canon r) rs)
             \<in> set (r # filter (sameFixture canon r) rs)" .
  with 2 show ?case by auto
qed

lemma aggregate_not_scheduled:
  "r \<in> set (fst (aggregate canon now fetchers windowDays)) \<Longrightarrow> status r \<noteq> Scheduled"
  using dedupe_subset [of canon "dateWindowFilter now windowDays (fst (mergeSources fetchers))"]
  by (auto simp: aggregate_def dateWindowFilter_def split: prod.splits)

text \<open>
  Claim C2. In the output of one matching run no two candidates refer to the same result
  and no question appears twice: the positions of the results are pairwise distinct, the
  positions of the questions are pairwise distinct, every candidate carries the result and
  the question at its positions, and with the match numbers of the form distinct so are
  those of the candidates. This holds for all inputs and all configurations.
\<close>

theorem matching_is_one_to_one:
  "distinct (map resultIx (candidates (matchQuestions cfg questions results))) \<and>
   distinct (map questionIx (candidates (matchQuestions cfg questions results))) \<and>
   (\<forall>c\<in>set (candidates (matchQuestions cfg questions results)).
      resultIx c < length results \<and> candidateResult c = results ! resultIx c \<and>
      questionIx c < length questions \<and> candidateQuestion c = questions ! questionIx c) \<and>
   (distinct (map questionNumber questions) \<longrightarrow>
      distinct (map (\<lambda>c. questionNumber (candidateQuestion c))
                 (candidates (matchQuestions cfg questions results))))"
proof -
  let ?cs = "candidates (matchQuestions cfg questions results)"
  have d: "distinct (map resultIx ?cs)" "distinct (map questionIx ?cs)"
    using greedy_one_to_one [of "survivingPairs cfg questions results"]
    by (simp_all add: matchQuestions_def)
  have s: "\<forall>c\<in>set ?cs. resultIx c < length results \<and> candidateResult c = results ! resultIx c \<and>
      questionIx c < length questions \<and> candidateQuestion c = questions ! questionIx c"
    using candidates_sound by blast
  have n: "distinct (map (\<lambda>c. questionNumber (candidateQuestion c)) ?cs)"
    if dq: "distinct (map questionNumber questions)"
  proof -
    have "inj_on (\<lambda>c. questionNumber (candidateQuestion c)) (set ?cs)"
    proof (rule inj_onI)
      fix c c'
      assume c: "c \<in> set ?cs" and c': "c' \<in> set ?cs"
        and eq: "questionNumber (candidateQuestion c) = questionNumber (candidateQuestion c')"
      from s c c' have i: "questionIx c < length (map questionNumber questions)"
        and i': "questionIx c' < length (map questionNumber questions)"
        by simp_all
      from s c c' eq have "map questionNumber questions ! questionIx c
                           = map questionNumber questions ! questionIx c'"
        by simp
      then have "questionIx c = questionIx c'"
        by (simp only: nth_eq_iff_index_eq [OF dq i i'])
      with d(2) c c' show "c = c'"
        by (meson distinct_map inj_onD)
    qed
    moreover from d(2) have "distinct ?cs" by (simp add: distinct_map)
    ultimately show ?thesis by (simp add: distinct_map)
  qed
  from d s n show ?thesis by blast
qed

theorem matching_is_one_to_one_witness:
  "distinct (map questionNumber [firstQuestion, secondQuestion, rematchQuestion]) \<and>
   map resultIx (candidates (matchQuestions exactConfig
       [firstQuestion, secondQuestion, rematchQuestion]
       [scheduledResult, finishedResult, finishedResult])) = [1, 2, 0] \<and>
   map questionIx (candidates (matchQuestions exactConfig
       [firstQuestion, secondQuestion, rematchQuestion]
       [scheduledResult, finishedResult, finishedResult])) = [0, 2, 1] \<and>
   map (\<lambda>c. questionNumber (candidateQuestion c)) (candidates (matchQuestions exactConfig
       [firstQuestion, secondQuestion, rematchQuestion]
       [scheduledResult, finishedResult, finishedResult])) = [1, 3, 2] \<and>
   distinct (map resultIx (candidates (matchQuestions exactConfig
       [firstQuestion, secondQuestion, rematchQuestion]
       [scheduledResult, finishedResult, finishedResult])))"
  using matching_is_one_to_one [of exactConfig "[firstQuestion, secondQuestion, rematchQuestion]"
      "[scheduledResult, finishedResult, finishedResult]"]
  by (simp add: matchQuestions_def survivingPairs_def pairConfidence_def invalidQuestion_def
      preferred_def exactConfig_def firstQuestion_def secondQuestion_def rematchQuestion_def
      finishedResult_def scheduledResult_def enumerate_eq_zip upt_rec)

text \<open>
  Claim C7. The engine never makes up a result: every candidate of its output is one of the
  surviving pairs, an input question paired with an input result whose confidence cleared the
  floor and the threshold, and a question without a surviving pair has no candidate at all,
  it is simply left out. Applying the output leaves every answer slot exactly as it was
  unless an applied result refers to it: so for the engine's candidates, converted to
  auto-fill results with their match numbers, and so for any list of results (those with a
  match number outside 1 to 15 are not applied).
\<close>

theorem unassigned_slots_omitted_and_unchanged:
  "set (candidates (matchQuestions cfg questions results))
     \<subseteq> set (survivingPairs cfg questions results) \<and>
   (\<forall>c\<in>set (candidates (matchQuestions cfg questions results)).
      questionIx c < length questions \<and> candidateQuestion c = questions ! questionIx c \<and>
      resultIx c < length results \<and> candidateResult c = results ! resultIx c \<and>
      pairConfidence cfg (candidateQuestion c) (candidateResult c) = Some (confidence c) \<and>
      confidence c \<ge> of_int (threshold cfg (isChampionsLeague (candidateResult c)))) \<and>
   ((\<forall>p\<in>set (survivingPairs cfg questions results). questionIx p \<noteq> j) \<longrightarrow>
      (\<forall>c\<in>set (candidates (matchQuestions cfg questions results)). questionIx c \<noteq> j)) \<and>
   ((\<forall>c. matchNumber (toResult c) = questionNumber (candidateQuestion c)) \<and>
    (\<forall>c\<in>set (candidates (matchQuestions cfg questions results)).
       questionNumber (candidateQuestion c) - 1 \<noteq> int i) \<longrightarrow>
      jsGet (applyAutoFillResults
               (map toResult (candidates (matchQuestions cfg questions results)))
               currentAnswers quinipolo) i
        = jsGet currentAnswers i) \<and>
   ((\<forall>m\<in>set matches.
       1 \<le> matchNumber m \<and> matchNumber m \<le> 15 \<longrightarrow> matchNumber m - 1 \<noteq> int i) \<longrightarrow>
      jsGet (applyAutoFillResults matches currentAnswers quinipolo) i = jsGet currentAnswers i)"
proof -
  let ?cs = "candidates (matchQuestions cfg questions results)"
  let ?ps = "survivingPairs cfg questions results"
  have sub: "set ?cs \<subseteq> set ?ps"
    using greedy_subset [of ?ps] by (simp add: matchQuestions_def)
  have sound: "\<forall>c\<in>set ?cs.
      questionIx c < length questions \<and> candidateQuestion c = questions ! questionIx c \<and>
      resultIx c < length results \<and> candidateResult c = results ! resultIx c \<and>
      pairConfidence cfg (candidateQuestion c) (candidateResult c) = Some (confidence c) \<and>
      confidence c \<ge> of_int (threshold cfg (isChampionsLeague (candidateResult c)))"
    using sub survivingPairs_sound by blast
  have omitted: "\<forall>c\<in>set ?cs. questionIx c \<noteq> j" if "\<forall>p\<in>set ?ps. questionIx p \<noteq> j"
    using sub that by blast
  have frame: "jsGet (applyAutoFillResults ms currentAnswers quinipolo) i = jsGet currentAnswers i"
    if "\<forall>m\<in>set ms. 1 \<le> matchNumber m \<and> matchNumber m \<le> 15 \<longrightarrow> matchNumber m - 1 \<noteq> int i"
    for ms
    using that unfolding applyAutoFillResults_def by (rule foldl_applyResult_untouched)
  have applied: "jsGet (applyAutoFillResults (map toResult ?cs) currentAnswers quinipolo) i
                 = jsGet currentAnswers i"
    if "(\<forall>c. matchNumber (toResult c) = questionNumber (candidateQuestion c)) \<and>
        (\<forall>c\<in>set ?cs. questionNumber (candidateQuestion c) - 1 \<noteq> int i)"
    using that by (intro frame) auto
  from sub sound omitted applied frame show ?thesis by blast
qed

theorem unassigned_slots_omitted_and_unchanged_witness:
  "map questionIx (survivingPairs exactConfig [firstQuestion, secondQuestion] [finishedResult])
     = [0] \<and>
   map questionIx (candidates
       (matchQuestions exactConfig [firstQuestion, secondQuestion] [finishedResult])) = [0] \<and>
   map (\<lambda>c. matchNumber (sampleToResult c)) (candidates
       (matchQuestions exactConfig [firstQuestion, secondQuestion] [finishedResult])) = [1] \<and>
   jsGet (applyAutoFillResults
            (map sampleToResult (candidates
               (matchQuestions exactConfig [firstQuestion, secondQuestion] [finishedResult])))
            [Some \<lparr> answerMatchNumber = 1, chosenWinner = '''', isGame15 = False,
                    goalsHomeTeam = Some '''', goalsAwayTeam = Some '''' \<rparr>,
             Some \<lparr> answerMatchNumber = 2, chosenWinner = ''Terrassa'', isGame15 = False,
                    goalsHomeTeam = Some '''', goalsAwayTeam = Some '''' \<rparr>]
            []) 1
   = Some \<lparr> answerMatchNumber = 2, chosenWinner = ''Terrassa'', isGame15 = False,
            goalsHomeTeam = Some '''', goalsAwayTeam = Some '''' \<rparr> \<and>
   jsGet (applyAutoFillResults
            [\<lparr> matchNumber = 1, outcome = ''Tie'', homeScore = 8, awayScore = 8,
                homeRegulationScore = None, awayRegulationScore = None \<rparr>]
            [Some \<lparr> answerMatchNumber = 1, chosenWinner = '''', isGame15 = False,
                    goalsHomeTeam = Some '''', goalsAwayTeam = Some '''' \<rparr>,
             Some \<lparr> answerMatchNumber = 2, chosenWinner = ''Terrassa'', isGame15 = False,
                    goalsHomeTeam = Some '''', goalsAwayTeam = Some '''' \<rparr>]
            []) 1
   = Some \<lparr> answerMatchNumber = 2, chosenWinner = ''Terrassa'', isGame15 = False,
            goalsHomeTeam = Some '''', goalsAwayTeam = Some '''' \<rparr>"
  using unassigned_slots_omitted_and_unchanged
    [where cfg = exactConfig and questions = "[firstQuestion, secondQuestion]"
       and results = "[finishedResult]" and j = 1 and toResult = sampleToResult and i = 1
       and currentAnswers =
         "[Some \<lparr> answerMatchNumber = 1, chosenWinner = '''', isGame15 = False,
                   goalsHomeTeam = Some '''', goalsAwayTeam = Some '''' \<rparr>,
           Some \<lparr> answerMatchNumber = 2, chosenWinner = ''Terrassa'', isGame15 = False,
                   goalsHomeTeam = Some '''', goalsAwayTeam = Some '''' \<rparr>]"
       and quinipolo = "[]"
       and matches = "[\<lparr> matchNumber = 1, outcome = ''Tie'', homeScore = 8, awayScore = 8,
                          homeRegulationScore = None, awayRegulationScore = None \<rparr>]"]
  by (simp add: matchQuestions_def survivingPairs_def pairConfidence_def invalidQuestion_def
      preferred_def exactConfig_def firstQuestion_def secondQuestion_def finishedResult_def
      sampleToResult_def enumerate_eq_zip upt_rec jsGet_def)

text \<open>
  Claim C5. Whatever the fetchers, the merge looks at each of them on its own: a fetcher that
  fails adds a warning and no result, and the merged list with it is the merged list without
  it; the results of every fetcher that succeeded are all in the merged list, and nothing
  else is. The merge always returns. The two-source merge of \<^verbatim>\<open>fetchLastWeekResults\<close> is
  the instance for Flashscore and the Champions League.
\<close>

theorem failed_source_is_excluded:
  "fst (mergeSources (before @ Inl failure # after)) = fst (mergeSources (before @ after)) \<and>
   snd (mergeSources (before @ Inl failure # after)) = Suc (snd (mergeSources (before @ after))) \<and>
   (\<forall>fetched\<in>set fetchers. \<forall>results. fetched = Inr results \<longrightarrow>
      set results \<subseteq> set (fst (mergeSources fetchers))) \<and>
   (\<forall>r\<in>set (fst (mergeSources fetchers)).
      \<exists>results. Inr results \<in> set fetchers \<and> r \<in> set results) \<and>
   snd (mergeSources fetchers) = length (filter isl fetchers) \<and>
   allResults flashscore championsLeague = fst (mergeSources [flashscore, championsLeague])"
proof (intro conjI)
  show "\<forall>fetched\<in>set fetchers. \<forall>results. fetched = Inr results \<longrightarrow>
      set results \<subseteq> set (fst (mergeSources fetchers))"
    by (force simp: mergeSources_fst catchFailure_def)
  show "\<forall>r\<in>set (fst (mergeSources fetchers)).
      \<exists>results. Inr results \<in> set fetchers \<and> r \<in> set results"
    by (auto simp: mergeSources_fst catchFailure_def split: sum.splits)
  show "allResults flashscore championsLeague = fst (mergeSources [flashscore, championsLeague])"
    by (simp only: mergeSources_fst allResults_def Let_def) simp
qed (simp_all add: mergeSources_fst mergeSources_snd catchFailure_def)

theorem failed_source_is_excluded_witness:
  "fst (mergeSources [Inr [finishedResult], Inl NetworkError, Inr [scheduledResult]])
     = [finishedResult, scheduledResult] \<and>
   snd (mergeSources [Inr [finishedResult], Inl NetworkError, Inr [scheduledResult]]) = 1 \<and>
   allResults (Inl ParseError) (Inr [finishedResult]) = [finishedResult]"
  using failed_source_is_excluded [of "[Inr [finishedResult]]" NetworkError
      "[Inr [scheduledResult]]"
      "[Inr [finishedResult], Inl NetworkError, Inr [scheduledResult]]"
      "Inl ParseError" "Inr [finishedResult]"]
  by (simp add: allResults_def catchFailure_def)

text \<open>
  Claim C6. For all inputs of the pipeline, no result with status \<^verbatim>\<open>scheduled\<close> is among
  the results the aggregator hands to the Matching Engine, and the result of every candidate
  of the output is one of the results handed over, so none of them is scheduled.
\<close>

theorem scheduled_results_never_matched:
  "(\<forall>r\<in>set (fst (aggregate (normalizeName cfg) now fetchers windowDays)).
      status r \<noteq> Scheduled) \<and>
   (\<forall>c\<in>set (candidates (pipeline cfg now fetchers windowDays questions)).
      status (candidateResult c) \<noteq> Scheduled \<and>
      candidateResult c \<in> set (fst (aggregate (normalizeName cfg) now fetchers windowDays)))"
proof -
  let ?rs = "fst (aggregate (normalizeName cfg) now fetchers windowDays)"
  have a: "\<forall>r\<in>set ?rs. status r \<noteq> Scheduled"
    using aggregate_not_scheduled by blast
  have "candidateResult c \<in> set ?rs"
    if "c \<in> set (candidates (pipeline cfg now fetchers windowDays questions))" for c
    using candidates_sound [of c cfg questions ?rs] that by (simp add: pipeline_def)
  with a show ?thesis by blast
qed

theorem scheduled_results_never_matched_witness:
  "fst (aggregate (normalizeName exactConfig) 700000
         [Inr [scheduledResult, finishedResult], Inl Timeout] 7)
     = [finishedResult] \<and>
   map candidateResult (candidates (pipeline exactConfig 700000
       [Inr [scheduledResult, finishedResult], Inl Timeout] 7 [firstQuestion, secondQuestion]))
     = [finishedResult] \<and>
   status finishedResult \<noteq> Scheduled"
  using scheduled_results_never_matched [of exactConfig 700000
      "[Inr [scheduledResult, finishedResult], Inl Timeout]" 7 "[firstQuestion, secondQuestion]"]
  by (simp add: pipeline_def aggregate_def dateWindowFilter_def secondsPerDay_def sameFixture_def
      matchQuestions_def survivingPairs_def pairConfidence_def invalidQuestion_def
      preferred_def exactConfig_def firstQuestion_def secondQuestion_def finishedResult_def
      scheduledResult_def enumerate_eq_zip upt_rec)

end
